theory Spec2Isabelle
  imports Complex_Main
begin

section \<open>Image batches\<close>

text \<open>
  The loss functions of \<^verbatim>\<open>losses.py\<close> take four-axis tensors (batch, channel,
  height, width). A batch is modelled as a nested list, outermost axis first, with
  real numbers for the tensor's elements: the arithmetic below is exact, while the
  source computes in 32-bit floating point and rounds. One conversion to float32 is
  modelled, because it decides the value that is returned: that of the Python number
  \<^verbatim>\<open>self.eps*self.eps\<close> in CharbonnierLoss, which is 0 once the square falls
  below the float32 range.

  A nested list is a tensor when it is rectangular (\<open>has_shape\<close>). An axis of
  extent zero hides the extents of the axes under it, so the statements about shapes
  are made for batches whose four extents are positive (\<open>is_batch\<close>).
\<close>

type_synonym batch = "real list list list list"

text \<open>What a call can raise.\<close>

datatype exn = RuntimeError | ValueError | AttributeError | TypeError

text \<open>
  A zero-dimensional tensor, as \<^verbatim>\<open>torch.mean\<close> and \<^verbatim>\<open>sum\<close> return it.
  \<open>None\<close> is a value that is not finite (NaN or an infinity), which the source gets
  from a division by zero: the mean of a tensor with no element, a sum divided by a
  count of zero. No operation of this file turns such a value into a finite one.
\<close>

type_synonym scalar = "real option"

definition size0 :: "batch \<Rightarrow> nat" where
  "size0 x = length x"

definition size1 :: "batch \<Rightarrow> nat" where
  "size1 x = (case x of [] \<Rightarrow> 0 | i # _ \<Rightarrow> length i)"

definition size2 :: "batch \<Rightarrow> nat" where
  "size2 x = (case x of [] \<Rightarrow> 0 | i # _ \<Rightarrow> (case i of [] \<Rightarrow> 0 | p # _ \<Rightarrow> length p))"

definition size3 :: "batch \<Rightarrow> nat" where
  "size3 x = (case x of [] \<Rightarrow> 0 | i # _ \<Rightarrow> (case i of [] \<Rightarrow> 0 | p # _ \<Rightarrow>
     (case p of [] \<Rightarrow> 0 | r # _ \<Rightarrow> length r)))"

definition has_shape :: "batch \<Rightarrow> nat \<Rightarrow> nat \<Rightarrow> nat \<Rightarrow> nat \<Rightarrow> bool" where
  "has_shape x b c h w =
     (length x = b \<and>
      list_all (\<lambda>i. length i = c \<and>
        list_all (\<lambda>p. length p = h \<and> list_all (\<lambda>r. length r = w) p) i) x)"

definition is_batch :: "batch \<Rightarrow> nat \<Rightarrow> nat \<Rightarrow> nat \<Rightarrow> nat \<Rightarrow> bool" where
  "is_batch x b c h w = (0 < b \<and> 0 < c \<and> 0 < h \<and> 0 < w \<and> has_shape x b c h w)"

definition map4 :: "(real \<Rightarrow> real) \<Rightarrow> batch \<Rightarrow> batch" where
  "map4 f x = map (map (map (map f))) x"

definition zip4 :: "(real \<Rightarrow> real \<Rightarrow> real) \<Rightarrow> batch \<Rightarrow> batch \<Rightarrow> batch" where
  "zip4 f x y = map2 (map2 (map2 (map2 f))) x y"

definition flat :: "batch \<Rightarrow> real list" where
  "flat x = concat (concat (concat x))"

definition numel :: "batch \<Rightarrow> nat" where
  "numel x = length (flat x)"

text \<open>\<^verbatim>\<open>t.sum()\<close>: the sum of all elements, 0 for a tensor with no element.\<close>

definition sum_all :: "batch \<Rightarrow> real" where
  "sum_all x = sum_list (flat x)"

text \<open>\<^verbatim>\<open>torch.mean(t)\<close>: the mean of all elements, NaN for a tensor with no element.\<close>

definition mean_all :: "batch \<Rightarrow> scalar" where
  "mean_all x = (if numel x = 0 then None else Some (sum_all x / real (numel x)))"

subsection \<open>Broadcasting\<close>

text \<open>
  A binary elementwise operator of torch (\<^verbatim>\<open>x - y\<close>, \<^verbatim>\<open>x + y\<close>) first
  compares the two shapes axis by axis. Two extents are compatible when they are equal
  or one of them is 1; an axis of extent 1 is then repeated to the other extent. With
  an incompatible axis the operator raises \<^verbatim>\<open>RuntimeError\<close>.
\<close>

definition compat_dim :: "nat \<Rightarrow> nat \<Rightarrow> bool" where
  "compat_dim m n = (m = n \<or> m = 1 \<or> n = 1)"

definition bdim :: "nat \<Rightarrow> nat \<Rightarrow> nat" where
  "bdim m n = (if m = 1 then n else m)"

definition expand :: "nat \<Rightarrow> 'a list \<Rightarrow> 'a list" where
  "expand n xs = (case xs of [a] \<Rightarrow> replicate n a | _ \<Rightarrow> xs)"

definition expand4 :: "nat \<Rightarrow> nat \<Rightarrow> nat \<Rightarrow> nat \<Rightarrow> batch \<Rightarrow> batch" where
  "expand4 b c h w x =
     expand b (map (\<lambda>i. expand c (map (\<lambda>p. expand h (map (expand w) p)) i)) x)"

definition broadcastable :: "batch \<Rightarrow> batch \<Rightarrow> bool" where
  "broadcastable x y =
     (compat_dim (size0 x) (size0 y) \<and> compat_dim (size1 x) (size1 y) \<and>
      compat_dim (size2 x) (size2 y) \<and> compat_dim (size3 x) (size3 y))"

definition bop :: "(real \<Rightarrow> real \<Rightarrow> real) \<Rightarrow> batch \<Rightarrow> batch \<Rightarrow> exn + batch" where
  "bop f x y =
     (if broadcastable x y then
        (let b = bdim (size0 x) (size0 y); c = bdim (size1 x) (size1 y);
             h = bdim (size2 x) (size2 y); w = bdim (size3 x) (size3 y)
         in Inr (zip4 f (expand4 b c h w x) (expand4 b c h w y)))
      else Inl RuntimeError)"


definition and_then :: "exn + 'a \<Rightarrow> ('a \<Rightarrow> exn + 'b) \<Rightarrow> exn + 'b" where
  "and_then r f = (case r of Inl e \<Rightarrow> Inl e | Inr v \<Rightarrow> f v)"

subsection \<open>Arithmetic on zero-dimensional tensors\<close>

definition fdiv :: "real \<Rightarrow> nat \<Rightarrow> scalar" where
  "fdiv a n = (if n = 0 then None else Some (a / real n))"

definition sdiv :: "scalar \<Rightarrow> nat \<Rightarrow> scalar" where
  "sdiv s n = (case s of None \<Rightarrow> None | Some a \<Rightarrow> fdiv a n)"

definition sadd :: "scalar \<Rightarrow> scalar \<Rightarrow> scalar" where
  "sadd s t = (case s of None \<Rightarrow> None | Some a \<Rightarrow> (case t of None \<Rightarrow> None | Some b \<Rightarrow> Some (a + b)))"

definition smul :: "real \<Rightarrow> scalar \<Rightarrow> scalar" where
  "smul k s = (case s of None \<Rightarrow> None | Some a \<Rightarrow> Some (k * a))"

definition ssub :: "real \<Rightarrow> scalar \<Rightarrow> scalar" where
  "ssub k s = (case s of None \<Rightarrow> None | Some a \<Rightarrow> Some (k - a))"

subsection \<open>Slices, splits and rolls\<close>

text \<open>Python's \<^verbatim>\<open>xs[:k]\<close>: a negative bound counts from the end.\<close>

definition slice_to :: "int \<Rightarrow> 'a list \<Rightarrow> 'a list" where
  "slice_to k xs = (if k < 0 then take (nat (int (length xs) + k)) xs else take (nat k) xs)"

text \<open>\<^verbatim>\<open>x[:, :, 1:, :]\<close>, \<^verbatim>\<open>x[:, :, :k, :]\<close>, \<^verbatim>\<open>x[:, :, :, 1:]\<close> and
  \<^verbatim>\<open>x[:, :, :, :k]\<close>.\<close>

definition rows_from1 :: "batch \<Rightarrow> batch" where
  "rows_from1 x = map (map (drop 1)) x"

definition rows_to :: "int \<Rightarrow> batch \<Rightarrow> batch" where
  "rows_to k x = map (map (slice_to k)) x"

definition cols_from1 :: "batch \<Rightarrow> batch" where
  "cols_from1 x = map (map (map (drop 1))) x"

definition cols_to :: "int \<Rightarrow> batch \<Rightarrow> batch" where
  "cols_to k x = map (map (map (slice_to k))) x"

text \<open>
  \<^verbatim>\<open>torch.split(x, 1, dim=1)\<close>: one tensor of channel extent 1 for each channel.
  (For a channel extent of zero torch returns one chunk and this list is empty; both
  fail to unpack into three names.)
\<close>

definition split1 :: "batch \<Rightarrow> batch list" where
  "split1 x = map (\<lambda>j. map (\<lambda>i. [i ! j]) x) [0..<size1 x]"

text \<open>\<^verbatim>\<open>a, b, c = t\<close>: unpacking raises \<^verbatim>\<open>ValueError\<close> unless \<open>t\<close> has three items.\<close>

definition unpack3 :: "'a list \<Rightarrow> exn + ('a \<times> 'a \<times> 'a)" where
  "unpack3 t = (case t of [a, b, c] \<Rightarrow> Inr (a, b, c) | _ \<Rightarrow> Inl ValueError)"





text \<open>
  \<^verbatim>\<open>torch.mean(x, 1, keepdim=True)\<close>: the mean over the channels at each pixel,
  of shape (b, 1, h, w).
\<close>

definition mean_dim1 :: "batch \<Rightarrow> batch" where
  "mean_dim1 x =
     map (\<lambda>img. [map (\<lambda>i. map (\<lambda>j. sum_list (map (\<lambda>ch. ch ! i ! j) img) / real (length img))
                              [0..<size3 x]) [0..<size2 x]]) x"

section \<open>TVLoss\<close>

text \<open>
  \<^verbatim>\<open>
  def forward(self, x):
      batch_size = x.size()[0]
      h_x = x.size()[2]
      w_x = x.size()[3]
      count_h = self.tensor_size(x[:, :, 1:, :])
      count_w = self.tensor_size(x[:, :, :, 1:])
      h_tv = torch.pow((x[:, :, 1:, :] - x[:, :, :h_x - 1, :]), 2).sum()
      w_tv = torch.pow((x[:, :, :, 1:] - x[:, :, :, :w_x - 1]), 2).sum()
      return self.tv_loss_weight * 2 * (h_tv / count_h + w_tv / count_w) / batch_size

  def tensor_size(t):
      return t.size()[1] * t.size()[2] * t.size()[3]
  \<close>
  The first parameter is \<^verbatim>\<open>self.tv_loss_weight\<close>.
\<close>

definition tensor_size :: "batch \<Rightarrow> nat" where
  "tensor_size t = size1 t * size2 t * size3 t"

definition TVLoss_forward :: "real \<Rightarrow> batch \<Rightarrow> exn + scalar" where
  "TVLoss_forward tv_loss_weight x =
     (let batch_size = size0 x;
          h_x = size2 x;
          w_x = size3 x;
          count_h = tensor_size (rows_from1 x);
          count_w = tensor_size (cols_from1 x)
      in and_then (bop (-) (rows_from1 x) (rows_to (int h_x - 1) x)) (\<lambda>dh.
         and_then (bop (-) (cols_from1 x) (cols_to (int w_x - 1) x)) (\<lambda>dw.
           (let h_tv = sum_all (map4 (\<lambda>d. d ^ 2) dh);
                w_tv = sum_all (map4 (\<lambda>d. d ^ 2) dw)
            in Inr (sdiv (smul (tv_loss_weight * 2)
                           (sadd (fdiv h_tv count_h) (fdiv w_tv count_w))) batch_size)))))"

text \<open>
  The total variation as the specification words it: the sums of the squared
  differences of vertically and of horizontally adjacent pixels, by index.
\<close>

definition h_tv_spec :: "batch \<Rightarrow> real" where
  "h_tv_spec x =
     (\<Sum>n\<leftarrow>[0..<size0 x]. \<Sum>c\<leftarrow>[0..<size1 x]. \<Sum>i\<leftarrow>[0..<size2 x - 1]. \<Sum>j\<leftarrow>[0..<size3 x].
        (x ! n ! c ! (i + 1) ! j - x ! n ! c ! i ! j) ^ 2)"

definition w_tv_spec :: "batch \<Rightarrow> real" where
  "w_tv_spec x =
     (\<Sum>n\<leftarrow>[0..<size0 x]. \<Sum>c\<leftarrow>[0..<size1 x]. \<Sum>i\<leftarrow>[0..<size2 x]. \<Sum>j\<leftarrow>[0..<size3 x - 1].
        (x ! n ! c ! i ! (j + 1) - x ! n ! c ! i ! j) ^ 2)"

section \<open>CharbonnierLoss\<close>

text \<open>
  \<^verbatim>\<open>
  def forward(self, x, y):
      diff = x - y
      loss = torch.mean(torch.sqrt((diff * diff) + (self.eps*self.eps)))
      return loss
  \<close>
  The first parameter is \<^verbatim>\<open>self.eps\<close>; the constructor's default is \<open>1e-3\<close>.

  \<^verbatim>\<open>self.eps*self.eps\<close> is a Python number, and torch converts it to float32 when
  it adds it to the float32 tensor. Below the least normal float32, \<open>2 ^ -126\<close>, the
  float32 numbers are the multiples of \<open>2 ^ -149\<close>, and the conversion takes the
  nearest one, the even one at a tie: a square of at most \<open>2 ^ -150\<close> becomes 0.
  \<open>f32_scalar\<close> is that conversion below the normal range. From \<open>2 ^ -126\<close> on,
  where the conversion changes the number by a factor within \<open>1 \<plusminus> 2 ^ -24\<close>, the
  model keeps the number, as it does for the elements of the tensors.
\<close>

definition round_even :: "real \<Rightarrow> int" where
  "round_even r =
     (let f = \<lfloor>r\<rfloor>; d = r - of_int f
      in if d < 1 / 2 then f else if 1 / 2 < d then f + 1 else if even f then f else f + 1)"

definition f32_scalar :: "real \<Rightarrow> real" where
  "f32_scalar v =
     (if \<bar>v\<bar> < 1 / 2 ^ 126 then of_int (round_even (v * 2 ^ 149)) / 2 ^ 149 else v)"

definition CharbonnierLoss_forward :: "real \<Rightarrow> batch \<Rightarrow> batch \<Rightarrow> exn + scalar" where
  "CharbonnierLoss_forward eps x y =
     (case bop (-) x y of
        Inl e \<Rightarrow> Inl e
      | Inr diff \<Rightarrow>
          Inr (mean_all (map4 (\<lambda>d. sqrt ((d * d) + f32_scalar (eps * eps))) diff)))"

definition default_eps :: real where
  "default_eps = 1 / 1000"

section \<open>ExposureLoss\<close>

text \<open>
  \<^verbatim>\<open>
  def __init__(self, patch_size=16,mean_val=0.7):
      super(ExposureLoss, self).__init__()
      self.patch_size = patch_size
      self.mean_val = mean_val

  def forward(self, x):
      b,c,h,w = x.shape
      x = torch.mean(x,1,keepdim=True)
      mean = self.pool(x)
      d = torch.mean(torch.pow(mean- torch.FloatTensor([self.mean_val] ).cuda(),2))
      return torch.mean(d)
  \<close>
  The module object is the table of the attributes that the constructor has set; reading
  an attribute that is not in the table raises \<^verbatim>\<open>AttributeError\<close>, and calling an
  attribute that is a number raises \<^verbatim>\<open>TypeError\<close>.
\<close>

datatype attr = IntAttr nat | FloatAttr real | LayerAttr "batch \<Rightarrow> exn + batch"

type_synonym module = "(string \<times> attr) list"

definition getattr :: "module \<Rightarrow> string \<Rightarrow> exn + attr" where
  "getattr self name = (case map_of self name of None \<Rightarrow> Inl AttributeError | Some a \<Rightarrow> Inr a)"

definition call_attr :: "attr \<Rightarrow> batch \<Rightarrow> exn + batch" where
  "call_attr a x = (case a of LayerAttr f \<Rightarrow> f x | _ \<Rightarrow> Inl TypeError)"

definition ExposureLoss_init :: "nat \<Rightarrow> real \<Rightarrow> module" where
  "ExposureLoss_init patch_size mean_val =
     [(''patch_size'', IntAttr patch_size), (''mean_val'', FloatAttr mean_val)]"

definition ExposureLoss_forward :: "module \<Rightarrow> batch \<Rightarrow> exn + scalar" where
  "ExposureLoss_forward self x =
     (let x1 = mean_dim1 x
      in and_then (getattr self ''pool'') (\<lambda>pool.
         and_then (call_attr pool x1) (\<lambda>mean.
         and_then (getattr self ''mean_val'') (\<lambda>mean_val.
           (case mean_val of
              FloatAttr m \<Rightarrow> Inr (mean_all (map4 (\<lambda>v. (v - m) ^ 2) mean))
            | _ \<Rightarrow> Inl TypeError)))))"

section \<open>ColorLoss\<close>



section \<open>ColorLoss1\<close>

text \<open>
  \<^verbatim>\<open>
  def forward(self, x ,y  ):
      b,c,h,w = x.shape
      r1,g1,b1 = torch.split(x, 1, dim=1)
      r2,g2,b2 = torch.spiit(y, 1, dim=1)
      k1 = r1*r2 + g1*g2 + b1*b2
      k2 = torch.pow( torch.pow(r1,2) + torch.pow(g1,2) + torch.pow(b1,2),0.5)
      k3 = torch.pow( torch.pow(r2,2) + torch.pow(g2,2) + torch.pow(b2,2),0.5)
      cos = k1 / (k2*k3)
      k = torch.mean(torch.arcos(cos))
      return k
  \<close>
  The module \<^verbatim>\<open>torch\<close> has no attribute \<^verbatim>\<open>spiit\<close> (nor \<^verbatim>\<open>arcos\<close>): once
  \<open>x\<close> has been split into three channels, the lookup in the third statement raises
  \<^verbatim>\<open>AttributeError\<close>, and no statement after it is reached.
\<close>

definition ColorLoss1_forward :: "batch \<Rightarrow> batch \<Rightarrow> exn + scalar" where
  "ColorLoss1_forward x y =
     and_then (unpack3 (split1 x)) (\<lambda>(r1, g1, b1). Inl AttributeError)"

section \<open>UnionLoss\<close>








section \<open>MyLoss\<close>

text \<open>
  \<^verbatim>\<open>
  def __init__(self):
      self.l1_module = CharbonnierLoss()
      self.ssim_module = SSIM(data_range=1.0, size_average=True, channel=3,nonnegative_ssim=True)
      ...

  def forward(self, x, y,epoch):
      l1_loss = self.l1_module(x,y)
      ssim_loss =  (1 - self.ssim_module(x, y))
      loss = l1_loss + 0.01 * ssim_loss
      if(epoch%3==1):
          print("l1_loss:" ,l1_loss.item() ,"ssim_loss", ssim_loss)
      return loss
  \<close>
  \<^verbatim>\<open>SSIM\<close> comes from the library \<^verbatim>\<open>pytorch_msssim\<close>: it is the parameter
  \<open>ssim_module\<close>. What \<^verbatim>\<open>print\<close> writes is returned beside the loss, as the list
  of the records written by the call.
\<close>

record diagnostic =
  diag_l1_loss :: scalar
  diag_ssim_loss :: scalar

definition MyLoss_forward ::
  "(batch \<Rightarrow> batch \<Rightarrow> exn + scalar) \<Rightarrow> batch \<Rightarrow> batch \<Rightarrow> int \<Rightarrow> exn + (scalar \<times> diagnostic list)" where
  "MyLoss_forward ssim_module x y epoch =
     and_then (CharbonnierLoss_forward default_eps x y) (\<lambda>l1_loss.
     and_then (ssim_module x y) (\<lambda>ssim.
       (let ssim_loss = ssub 1 ssim;
            loss = sadd l1_loss (smul 0.01 ssim_loss);
            out = (if epoch mod 3 = 1
                   then [\<lparr>diag_l1_loss = l1_loss, diag_ssim_loss = ssim_loss\<rparr>] else [])
        in Inr (loss, out))))"

section \<open>Shapes and broadcasting\<close>

lemma expand_length: "length xs = n \<Longrightarrow> expand n xs = xs"
  by (auto simp: expand_def split: list.splits)

lemma length_expand: "length xs = n \<or> length xs = 1 \<Longrightarrow> length (expand n xs) = n"
  by (auto simp: expand_def split: list.splits)

lemma set_expand: "set (expand n xs) \<subseteq> set xs"
  by (auto simp: expand_def split: list.splits)

lemma is_batch_sizes:
  assumes "is_batch x b c h w"
  shows "size0 x = b" "size1 x = c" "size2 x = h" "size3 x = w"
  using assms
  by (auto simp: is_batch_def has_shape_def size0_def size1_def size2_def size3_def
      split: list.splits)

lemma has_shape_expand4_id: "has_shape x b c h w \<Longrightarrow> expand4 b c h w x = x"
proof -
  assume a: "has_shape x b c h w"
  have "map (\<lambda>i. expand c (map (\<lambda>p. expand h (map (expand w) p)) i)) x = map (\<lambda>i. i) x"
    using a by (intro map_cong refl)
      (auto simp: has_shape_def list_all_iff expand_length intro!: map_idI)
  then show ?thesis using a by (simp add: expand4_def expand_length has_shape_def)
qed

lemma has_shape_expand4:
  assumes "has_shape x b c h w"
    and "b = B \<or> b = 1" and "c = C \<or> c = 1" and "h = H \<or> h = 1" and "w = W \<or> w = 1"
  shows "has_shape (expand4 B C H W x) B C H W"
proof -
  have rows: "length (expand W r) = W" if "length r = w" for r :: "real list"
    using that assms(5) by (intro length_expand) auto
  have planes: "length (expand H (map (expand W) p)) = H \<and>
      (\<forall>r\<in>set (expand H (map (expand W) p)). length r = W)"
    if "length p = h" "\<forall>r\<in>set p. length r = w" for p :: "real list list"
  proof
    show "length (expand H (map (expand W) p)) = H"
      using that(1) assms(4) by (intro length_expand) auto
    show "\<forall>r\<in>set (expand H (map (expand W) p)). length r = W"
      using set_expand[of H "map (expand W) p"] that(2) rows by auto
  qed
  have imgs: "length (expand C (map (\<lambda>p. expand H (map (expand W) p)) i)) = C \<and>
      (\<forall>p\<in>set (expand C (map (\<lambda>p. expand H (map (expand W) p)) i)).
          length p = H \<and> (\<forall>r\<in>set p. length r = W))"
    if "length i = c" "\<forall>p\<in>set i. length p = h \<and> (\<forall>r\<in>set p. length r = w)"
    for i :: "real list list list"
  proof
    show "length (expand C (map (\<lambda>p. expand H (map (expand W) p)) i)) = C"
      using that(1) assms(3) by (intro length_expand) auto
    show "\<forall>p\<in>set (expand C (map (\<lambda>p. expand H (map (expand W) p)) i)).
          length p = H \<and> (\<forall>r\<in>set p. length r = W)"
    proof
      fix p assume "p \<in> set (expand C (map (\<lambda>p. expand H (map (expand W) p)) i))"
      then have "p \<in> set (map (\<lambda>p. expand H (map (expand W) p)) i)"
        using set_expand[of C "map (\<lambda>p. expand H (map (expand W) p)) i"] by blast
      then obtain q where q: "q \<in> set i" "p = expand H (map (expand W) q)" by auto
      show "length p = H \<and> (\<forall>r\<in>set p. length r = W)"
        using planes[of q] that(2) q by blast
    qed
  qed
  have len: "length (expand4 B C H W x) = B"
    unfolding expand4_def using assms(1,2) by (intro length_expand) (auto simp: has_shape_def)
  have all: "\<forall>i\<in>set (expand4 B C H W x). length i = C \<and>
      (\<forall>p\<in>set i. length p = H \<and> (\<forall>r\<in>set p. length r = W))"
  proof
    fix i assume "i \<in> set (expand4 B C H W x)"
    then have "i \<in> set (map (\<lambda>i. expand C (map (\<lambda>p. expand H (map (expand W) p)) i)) x)"
      unfolding expand4_def
      using set_expand[of B "map (\<lambda>i. expand C (map (\<lambda>p. expand H (map (expand W) p)) i)) x"]
      by blast
    then obtain j where j: "j \<in> set x" "i = expand C (map (\<lambda>p. expand H (map (expand W) p)) j)"
      by auto
    have "length j = c \<and> (\<forall>p\<in>set j. length p = h \<and> (\<forall>r\<in>set p. length r = w))"
      using assms(1) j(1) by (auto simp: has_shape_def list_all_iff)
    then show "length i = C \<and> (\<forall>p\<in>set i. length p = H \<and> (\<forall>r\<in>set p. length r = W))"
      using imgs[of j] j(2) by blast
  qed
  show ?thesis
    using len all by (simp add: has_shape_def list_all_iff)
qed

lemma bdim_same: "bdim n n = n"
  by (simp add: bdim_def)

lemma bop_same_shape:
  assumes "is_batch x b c h w" "is_batch y b c h w"
  shows "bop f x y = Inr (zip4 f x y)"
  using assms is_batch_sizes[OF assms(1)] is_batch_sizes[OF assms(2)]
  by (simp add: bop_def broadcastable_def compat_dim_def bdim_same has_shape_expand4_id is_batch_def)

lemma flat_map4: "flat (map4 f x) = map f (flat x)"
  by (simp add: flat_def map4_def map_concat)

lemma numel_map4: "numel (map4 f x) = numel x"
  by (simp add: numel_def flat_map4)

lemma map2_same: "map2 f xs xs = map (\<lambda>v. f v v) xs"
  by (induction xs) auto

lemma zip4_same: "zip4 f x x = map4 (\<lambda>v. f v v) x"
  by (simp add: zip4_def map4_def map2_same)

lemma length_concat_const:
  "\<forall>xs\<in>set xss. length xs = n \<Longrightarrow> length (concat xss) = length xss * n"
  by (induction xss) auto

lemma has_shape_numel: "has_shape x b c h w \<Longrightarrow> numel x = b * c * h * w"
proof -
  assume a: "has_shape x b c h w"
  have 1: "length (concat x) = b * c"
    using a length_concat_const[of x c] by (auto simp: has_shape_def list_all_iff)
  have 2: "length (concat (concat x)) = b * c * h"
    using a 1 length_concat_const[of "concat x" h] by (auto simp: has_shape_def list_all_iff)
  have 3: "length (concat (concat (concat x))) = b * c * h * w"
    using a 2 length_concat_const[of "concat (concat x)" w] by (auto simp: has_shape_def list_all_iff)
  then show ?thesis by (simp add: numel_def flat_def)
qed

lemma list_all_map2:
  "length xs = length ys \<Longrightarrow> list_all P xs \<Longrightarrow> list_all Q ys \<Longrightarrow>
   (\<And>a b. P a \<Longrightarrow> Q b \<Longrightarrow> R (f a b)) \<Longrightarrow> list_all R (map2 f xs ys)"
  by (induction xs ys rule: list_induct2) auto

lemma has_shape_zip4:
  assumes "has_shape x b c h w" "has_shape y b c h w"
  shows "has_shape (zip4 f x y) b c h w"
  using assms unfolding has_shape_def zip4_def
  apply (intro conjI)
   apply simp
  apply (erule conjE)+
  apply (rule list_all_map2, simp, assumption, assumption)
  apply (intro conjI)
   apply simp
  apply (erule conjE)+
  apply (rule list_all_map2, simp, assumption, assumption)
  apply (intro conjI)
   apply simp
  apply (erule conjE)+
  apply (rule list_all_map2, simp, assumption, assumption)
  apply simp
  done


lemma is_batch_numel_pos: "is_batch x b c h w \<Longrightarrow> 0 < numel x"
  using has_shape_numel[of x b c h w] by (auto simp: is_batch_def)

lemma bop_batches:
  assumes "is_batch x b c h w" and "is_batch y b' c' h' w'"
    and "compat_dim b b'" "compat_dim c c'" "compat_dim h h'" "compat_dim w w'"
  shows "\<exists>d. bop f x y = Inr d \<and> is_batch d (bdim b b') (bdim c c') (bdim h h') (bdim w w')"
proof -
  let ?B = "bdim b b'" and ?C = "bdim c c'" and ?H = "bdim h h'" and ?W = "bdim w w'"
  have sx: "has_shape (expand4 ?B ?C ?H ?W x) ?B ?C ?H ?W"
    using assms by (intro has_shape_expand4[of x b c h w]) (auto simp: is_batch_def bdim_def compat_dim_def)
  have sy: "has_shape (expand4 ?B ?C ?H ?W y) ?B ?C ?H ?W"
    using assms by (intro has_shape_expand4[of y b' c' h' w']) (auto simp: is_batch_def bdim_def compat_dim_def)
  have pos: "0 < ?B \<and> 0 < ?C \<and> 0 < ?H \<and> 0 < ?W"
    using assms(1,2) by (auto simp: is_batch_def bdim_def)
  have "bop f x y = Inr (zip4 f (expand4 ?B ?C ?H ?W x) (expand4 ?B ?C ?H ?W y))"
    using assms(3-6) is_batch_sizes[OF assms(1)] is_batch_sizes[OF assms(2)]
    by (simp add: bop_def broadcastable_def Let_def)
  then show ?thesis
    using has_shape_zip4[OF sx sy] pos by (simp add: is_batch_def)
qed

lemma bop_incompatible:
  assumes "is_batch x b c h w" and "is_batch y b' c' h' w'"
    and "\<not> (compat_dim b b' \<and> compat_dim c c' \<and> compat_dim h h' \<and> compat_dim w w')"
  shows "bop f x y = Inl RuntimeError"
  using assms(3) is_batch_sizes[OF assms(1)] is_batch_sizes[OF assms(2)]
  by (auto simp: bop_def broadcastable_def)

section \<open>Means\<close>

lemma sum_list_lower: "\<forall>v\<in>set xs. c \<le> v \<Longrightarrow> c * real (length xs) \<le> sum_list xs"
  by (induction xs) (auto simp: algebra_simps)

lemma mean_lower:
  assumes "xs \<noteq> []" "\<forall>v\<in>set xs. (c::real) \<le> v"
  shows "c \<le> sum_list xs / real (length xs)"
  using sum_list_lower[OF assms(2)] assms(1) by (simp add: pos_le_divide_eq)

lemma mean_all_const:
  assumes "0 < numel x"
  shows "mean_all (map4 (\<lambda>_. c) x) = Some c"
  using assms by (simp add: mean_all_def numel_map4 sum_all_def flat_map4 numel_def sum_list_triv)

lemma mean_all_lower:
  assumes "0 < numel x" and "\<And>v. c \<le> g v"
  shows "\<exists>m. mean_all (map4 g x) = Some m \<and> c \<le> m"
proof -
  have "c \<le> sum_list (map g (flat x)) / real (length (map g (flat x)))"
    using assms by (intro mean_lower) (auto simp: numel_def)
  then show ?thesis
    using assms(1) by (simp add: mean_all_def numel_map4 sum_all_def flat_map4 numel_def)
qed

section \<open>CharbonnierLoss\<close>



lemma f32_scalar_normal: "1 / 2 ^ 126 \<le> \<bar>v\<bar> \<Longrightarrow> f32_scalar v = v"
  by (simp add: f32_scalar_def)



lemma sqrt_f32_normal:
  assumes "1 / 2 ^ 126 \<le> eps * eps"
  shows "sqrt (f32_scalar (eps * eps)) = \<bar>eps\<bar>"
proof -
  have "1 / 2 ^ 126 \<le> \<bar>eps * eps\<bar>" using assms by simp
  then have "f32_scalar (eps * eps) = eps * eps" by (rule f32_scalar_normal)
  then show ?thesis by simp
qed


lemma default_eps_normal: "1 / 2 ^ 126 \<le> default_eps * default_eps"
  by (simp add: default_eps_def)

lemma charb_ge: "sqrt (f32_scalar (eps * eps)) \<le> sqrt (d * d + f32_scalar (eps * eps))"
  by simp

lemma CharbonnierLoss_same:
  assumes "is_batch x b c h w"
  shows "CharbonnierLoss_forward eps x x = Inr (Some (sqrt (f32_scalar (eps * eps))))"
proof -
  have "map4 (\<lambda>d. sqrt ((d * d) + f32_scalar (eps * eps))) (zip4 (-) x x)
      = map4 (\<lambda>_. sqrt (f32_scalar (eps * eps))) x"
    by (simp add: zip4_same map4_def comp_def)
  then show ?thesis
    using mean_all_const[OF is_batch_numel_pos[OF assms(1)], of "sqrt (f32_scalar (eps * eps))"]
    by (simp add: CharbonnierLoss_forward_def bop_same_shape[OF assms(1,1)])
qed

lemma CharbonnierLoss_same_default:
  assumes "is_batch x b c h w"
  shows "CharbonnierLoss_forward default_eps x x = Inr (Some (1 / 1000))"
  using CharbonnierLoss_same[OF assms, of default_eps] sqrt_f32_normal[OF default_eps_normal]
  by (simp add: default_eps_def)

lemma CharbonnierLoss_compatible:
  assumes "is_batch x b c h w" and "is_batch y b' c' h' w'"
    and "compat_dim b b'" "compat_dim c c'" "compat_dim h h'" "compat_dim w w'"
  shows "\<exists>v. CharbonnierLoss_forward eps x y = Inr (Some v)
           \<and> sqrt (f32_scalar (eps * eps)) \<le> v"
proof -
  obtain d where d: "bop (-) x y = Inr d"
    "is_batch d (bdim b b') (bdim c c') (bdim h h') (bdim w w')"
    using bop_batches[OF assms(1-6)] by blast
  have "\<exists>m. mean_all (map4 (\<lambda>d. sqrt ((d * d) + f32_scalar (eps * eps))) d) = Some m
          \<and> sqrt (f32_scalar (eps * eps)) \<le> m"
    using is_batch_numel_pos[OF d(2)] charb_ge[of eps] by (intro mean_all_lower) auto
  then show ?thesis
    using d(1) by (simp add: CharbonnierLoss_forward_def)
qed

lemma CharbonnierLoss_incompatible:
  assumes "is_batch x b c h w" and "is_batch y b' c' h' w'"
    and "\<not> (compat_dim b b' \<and> compat_dim c c' \<and> compat_dim h h' \<and> compat_dim w w')"
  shows "CharbonnierLoss_forward eps x y = Inl RuntimeError"
  using bop_incompatible[OF assms, of "(-)"] by (simp add: CharbonnierLoss_forward_def)

lemma CharbonnierLoss_same_shape:
  assumes "is_batch x b c h w" and "is_batch y b c h w"
  shows "\<exists>v. CharbonnierLoss_forward eps x y = Inr (Some v)
           \<and> sqrt (f32_scalar (eps * eps)) \<le> v"
  using CharbonnierLoss_compatible[OF assms] by (simp add: compat_dim_def)

lemma zeros_1311: "is_batch [[[[0]], [[0]], [[0]]]] 1 3 1 1"
  by (simp add: is_batch_def has_shape_def)

lemma ones_1311: "is_batch [[[[1]], [[1]], [[1]]]] 1 3 1 1"
  by (simp add: is_batch_def has_shape_def)


lemma milli_eps: "(0 :: real) < 1 / 1000" "1 / 2 ^ 126 \<le> (1 / 1000 :: real) * (1 / 1000)"
  by simp_all




lemma zeros_1111: "is_batch [[[[0]]]] 1 1 1 1"
  by (simp add: is_batch_def has_shape_def)

lemma zeros_2111: "is_batch [[[[0]]], [[[0]]]] 2 1 1 1"
  by (simp add: is_batch_def has_shape_def)

lemma zeros_1112: "is_batch [[[[0, 0]]]] 1 1 1 2"
  by (simp add: is_batch_def has_shape_def)

lemma zeros_1113: "is_batch [[[[0, 0, 0]]]] 1 1 1 3"
  by (simp add: is_batch_def has_shape_def)

lemma CharbonnierLoss_broadcast_example:
  "CharbonnierLoss_forward eps [[[[0]]]] [[[[0]]], [[[0]]]]
     = Inr (Some (sqrt (f32_scalar (eps * eps))))"
  by (simp add: CharbonnierLoss_forward_def bop_def broadcastable_def compat_dim_def bdim_def
      size0_def size1_def size2_def size3_def expand4_def expand_def zip4_def map4_def
      mean_all_def numel_def flat_def sum_all_def)




text \<open>
  C6, as stated: batches of different shapes make the call fail. A batch of shape
  (1, 1, 1, 1) against one of shape (2, 1, 1, 1) is broadcast, and the call returns a
  number.
\<close>

theorem CharbonnierLoss_broadcast_counterexample:
  "is_batch [[[[0]]]] 1 1 1 1 \<and> is_batch [[[[0]]], [[[0]]]] 2 1 1 1
   \<and> CharbonnierLoss_forward (1 / 1000) [[[[0]]]] [[[[0]]], [[[0]]]] = Inr (Some (1 / 1000))"
  using CharbonnierLoss_broadcast_example[of "1 / 1000"] sqrt_f32_normal[OF milli_eps(2)]
    zeros_1111 zeros_2111 by simp

text \<open>
  C6, amended: when the shapes of the two batches are not broadcast-compatible (on some
  axis the extents differ and neither is 1), the call raises \<^verbatim>\<open>RuntimeError\<close>; when
  they are broadcast-compatible, equal or not, the operands are broadcast and the call
  returns a number.
\<close>

theorem CharbonnierLoss_shape_mismatch:
  assumes "is_batch x b c h w" and "is_batch y b' c' h' w'"
  shows "(\<not> (compat_dim b b' \<and> compat_dim c c' \<and> compat_dim h h' \<and> compat_dim w w')
            \<longrightarrow> CharbonnierLoss_forward eps x y = Inl RuntimeError)
       \<and> (compat_dim b b' \<and> compat_dim c c' \<and> compat_dim h h' \<and> compat_dim w w'
            \<longrightarrow> (\<exists>v. CharbonnierLoss_forward eps x y = Inr (Some v)))"
proof (intro conjI impI)
  assume "\<not> (compat_dim b b' \<and> compat_dim c c' \<and> compat_dim h h' \<and> compat_dim w w')"
  then show "CharbonnierLoss_forward eps x y = Inl RuntimeError"
    by (rule CharbonnierLoss_incompatible[OF assms])
next
  assume "compat_dim b b' \<and> compat_dim c c' \<and> compat_dim h h' \<and> compat_dim w w'"
  then show "\<exists>v. CharbonnierLoss_forward eps x y = Inr (Some v)"
    using CharbonnierLoss_compatible[OF assms, of eps] by blast
qed

theorem CharbonnierLoss_shape_mismatch_witness:
  "is_batch [[[[0, 0]]]] 1 1 1 2 \<and> is_batch [[[[0, 0, 0]]]] 1 1 1 3
   \<and> \<not> (compat_dim 1 1 \<and> compat_dim 1 1 \<and> compat_dim 1 1 \<and> compat_dim 2 3)
   \<and> CharbonnierLoss_forward (1 / 1000) [[[[0, 0]]]] [[[[0, 0, 0]]]] = Inl RuntimeError
   \<and> is_batch [[[[0]]]] 1 1 1 1 \<and> is_batch [[[[0]]], [[[0]]]] 2 1 1 1
   \<and> (compat_dim 1 2 \<and> compat_dim 1 1 \<and> compat_dim 1 1 \<and> compat_dim 1 1)
   \<and> (\<exists>v. CharbonnierLoss_forward (1 / 1000) [[[[0]]]] [[[[0]]], [[[0]]]] = Inr (Some v))"
  using CharbonnierLoss_shape_mismatch[OF zeros_1112 zeros_1113, of "1 / 1000"]
    CharbonnierLoss_shape_mismatch[OF zeros_1111 zeros_2111, of "1 / 1000"]
    zeros_1112 zeros_1113 zeros_1111 zeros_2111
  by (simp add: compat_dim_def)

section \<open>MyLoss\<close>

lemma MyLoss_forward_value:
  assumes "CharbonnierLoss_forward default_eps x y = Inr l1" and "ssim_module x y = Inr s"
  shows "MyLoss_forward ssim_module x y epoch =
           Inr (sadd l1 (smul 0.01 (ssub 1 s)),
                if epoch mod 3 = 1 then [\<lparr>diag_l1_loss = l1, diag_ssim_loss = ssub 1 s\<rparr>] else [])"
  using assms by (simp add: MyLoss_forward_def and_then_def Let_def)

text \<open>
  C1. For batches \<open>x\<close>, \<open>y\<close> of the same shape with three channels and every epoch,
  MyLoss.forward returns \<open>l1 + 0.01 * (1 - ssim)\<close>, with \<open>l1\<close> the Charbonnier loss of
  \<open>(x, y)\<close> at the default \<open>\<epsilon>\<close> and \<open>ssim\<close> the number that the similarity module
  returns for \<open>(x, y)\<close>.
\<close>

theorem MyLoss_forward_composite:
  assumes "is_batch x b 3 h w" and "is_batch y b 3 h w"
    and "ssim_module x y = Inr (Some s)"
  shows "\<exists>l1 out. CharbonnierLoss_forward default_eps x y = Inr (Some l1)
           \<and> MyLoss_forward ssim_module x y epoch = Inr (Some (l1 + 0.01 * (1 - s)), out)"
proof -
  obtain l1 where l1: "CharbonnierLoss_forward default_eps x y = Inr (Some l1)"
    using CharbonnierLoss_same_shape[OF assms(1,2), of default_eps] by blast
  have "MyLoss_forward ssim_module x y epoch =
           Inr (sadd (Some l1) (smul 0.01 (ssub 1 (Some s))),
                if epoch mod 3 = 1
                then [\<lparr>diag_l1_loss = Some l1, diag_ssim_loss = ssub 1 (Some s)\<rparr>] else [])"
    using l1 assms(3) by (rule MyLoss_forward_value)
  then show ?thesis
    using l1 by (simp add: sadd_def smul_def ssub_def)
qed

theorem MyLoss_forward_composite_witness:
  "is_batch [[[[0]], [[0]], [[0]]]] 1 3 1 1 \<and> is_batch [[[[1]], [[1]], [[1]]]] 1 3 1 1
   \<and> (\<lambda>x y. Inr (Some (1 / 2))) [[[[0]], [[0]], [[0]]]] [[[[1]], [[1]], [[1]]]]
       = (Inr (Some (1 / 2)) :: exn + scalar)
   \<and> (\<exists>l1 out. CharbonnierLoss_forward default_eps [[[[0]], [[0]], [[0]]]] [[[[1]], [[1]], [[1]]]]
                  = Inr (Some l1)
        \<and> MyLoss_forward (\<lambda>x y. Inr (Some (1 / 2))) [[[[0]], [[0]], [[0]]]]
            [[[[1]], [[1]], [[1]]]] 4 = Inr (Some (l1 + 0.01 * (1 - 1 / 2)), out))"
  using MyLoss_forward_composite[OF zeros_1311 ones_1311,
      of "\<lambda>x y. Inr (Some (1 / 2))" "1 / 2" 4] zeros_1311 ones_1311
  by simp

text \<open>
  C3. A call of MyLoss.forward that returns writes its diagnostic record exactly when
  \<open>epoch mod 3 = 1\<close>, the record holds the l1 sub-loss and the similarity sub-loss, and
  what the call returns or raises is the same for every epoch.
\<close>

theorem MyLoss_forward_diagnostic:
  "(\<forall>e1 e2. map_sum id fst (MyLoss_forward ssim_module x y e1)
            = map_sum id fst (MyLoss_forward ssim_module x y e2))
   \<and> (\<forall>epoch loss out. MyLoss_forward ssim_module x y epoch = Inr (loss, out) \<longrightarrow>
        (out \<noteq> [] \<longleftrightarrow> epoch mod 3 = 1)
        \<and> (\<exists>l1 s. CharbonnierLoss_forward default_eps x y = Inr l1 \<and> ssim_module x y = Inr s
             \<and> (epoch mod 3 = 1 \<longrightarrow> out = [\<lparr>diag_l1_loss = l1, diag_ssim_loss = ssub 1 s\<rparr>])))"
  by (auto simp: MyLoss_forward_def and_then_def Let_def split: sum.splits)

theorem MyLoss_forward_diagnostic_witness:
  "MyLoss_forward (\<lambda>x y. Inr (Some 1)) [[[[0]], [[0]], [[0]]]] [[[[0]], [[0]], [[0]]]] 1
     = Inr (Some (1 / 1000),
            [\<lparr>diag_l1_loss = Some (1 / 1000), diag_ssim_loss = Some 0\<rparr>])
   \<and> ([\<lparr>diag_l1_loss = Some (1 / 1000 :: real), diag_ssim_loss = Some (0 :: real)\<rparr>] \<noteq> []
        \<longleftrightarrow> (1 :: int) mod 3 = 1)
   \<and> map_sum id fst (MyLoss_forward (\<lambda>x y. Inr (Some 1)) [[[[0]], [[0]], [[0]]]]
         [[[[0]], [[0]], [[0]]]] 1)
     = map_sum id fst (MyLoss_forward (\<lambda>x y. Inr (Some 1)) [[[[0]], [[0]], [[0]]]]
         [[[[0]], [[0]], [[0]]]] 2)"
proof -
  let ?z = "[[[[0]], [[0]], [[0]]]] :: batch"
  let ?m = "(\<lambda>x y. Inr (Some 1)) :: batch \<Rightarrow> batch \<Rightarrow> exn + scalar"
  have l1: "CharbonnierLoss_forward default_eps ?z ?z = Inr (Some (1 / 1000))"
    using zeros_1311 by (rule CharbonnierLoss_same_default)
  have s: "?m ?z ?z = Inr (Some 1)" by simp
  have "MyLoss_forward ?m ?z ?z 1
     = Inr (sadd (Some (1 / 1000)) (smul 0.01 (ssub 1 (Some 1))),
            if (1 :: int) mod 3 = 1
            then [\<lparr>diag_l1_loss = Some (1 / 1000), diag_ssim_loss = ssub 1 (Some 1)\<rparr>] else [])"
    using l1 s by (rule MyLoss_forward_value)
  then have run: "MyLoss_forward ?m ?z ?z 1
     = Inr (Some (1 / 1000), [\<lparr>diag_l1_loss = Some (1 / 1000), diag_ssim_loss = Some 0\<rparr>])"
    by (simp add: sadd_def smul_def ssub_def)
  have a: "map_sum id fst (MyLoss_forward ?m ?z ?z 1) = map_sum id fst (MyLoss_forward ?m ?z ?z 2)"
    using MyLoss_forward_diagnostic[of ?m ?z ?z] by blast
  have b: "[\<lparr>diag_l1_loss = Some (1 / 1000 :: real), diag_ssim_loss = Some (0 :: real)\<rparr>] \<noteq> []
        \<longleftrightarrow> (1 :: int) mod 3 = 1"
    using MyLoss_forward_diagnostic[of ?m ?z ?z] run by blast
  show ?thesis
    by (intro conjI) (rule run, rule b, rule a)
qed

section \<open>ExposureLoss and ColorLoss1\<close>

lemma ExposureLoss_no_pool: "getattr (ExposureLoss_init patch_size mean_val) ''pool'' = Inl AttributeError"
  by (simp add: getattr_def ExposureLoss_init_def)

lemma ExposureLoss_forward_raises:
  "ExposureLoss_forward (ExposureLoss_init patch_size mean_val) x = Inl AttributeError"
  by (simp add: ExposureLoss_forward_def ExposureLoss_no_pool and_then_def)

lemma split1_length: "length (split1 x) = size1 x"
  by (simp add: split1_def)

lemma unpack3_length: "length t = 3 \<Longrightarrow> \<exists>a b c. unpack3 t = Inr (a, b, c)"
  by (auto simp: unpack3_def length_Suc_conv numeral_3_eq_3 split: list.splits)

lemma unpack3_not3: "length t \<noteq> 3 \<Longrightarrow> unpack3 t = Inl ValueError"
  by (auto simp: unpack3_def split: list.splits)

lemma ColorLoss1_forward_raises:
  "ColorLoss1_forward x y = Inl (if size1 x = 3 then AttributeError else ValueError)"
proof (cases "size1 x = 3")
  case True
  then obtain a b c where "unpack3 (split1 x) = Inr (a, b, c)"
    using unpack3_length[of "split1 x"] split1_length[of x] by auto
  then show ?thesis using True by (simp add: ColorLoss1_forward_def and_then_def)
next
  case False
  then have "unpack3 (split1 x) = Inl ValueError"
    using unpack3_not3[of "split1 x"] split1_length[of x] by simp
  then show ?thesis using False by (simp add: ColorLoss1_forward_def and_then_def)
qed

lemma uniform_batch: "0 < b \<Longrightarrow> 0 < c \<Longrightarrow> 0 < h \<Longrightarrow> 0 < w \<Longrightarrow>
    is_batch (replicate b (replicate c (replicate h (replicate w v)))) b c h w"
  by (simp add: is_batch_def has_shape_def list_all_iff)

text \<open>
  C4. The claim is that a batch of uniform luminance \<open>mean_val\<close> has an exposure loss of
  about 0. The constructor never sets the attribute \<^verbatim>\<open>pool\<close> that
  \<^verbatim>\<open>forward\<close> calls: on the batch of shape (1, 3, 16, 16) with every element
  \<open>0.7\<close>, and the default patch size 16 and target 0.7, the call raises
  \<^verbatim>\<open>AttributeError\<close> and returns no loss.
\<close>

theorem ExposureLoss_forward_uniform_raises:
  "is_batch (replicate 1 (replicate 3 (replicate 16 (replicate 16 (7 / 10))))) 1 3 16 16
   \<and> ExposureLoss_forward (ExposureLoss_init 16 (7 / 10))
       (replicate 1 (replicate 3 (replicate 16 (replicate 16 (7 / 10))))) = Inl AttributeError"
  using uniform_batch[of 1 3 16 16 "7 / 10"]
    ExposureLoss_forward_raises[of 16 "7 / 10"
      "replicate 1 (replicate 3 (replicate 16 (replicate 16 (7 / 10))))"]
  by simp

text \<open>
  C5. The claim is that the cosine is clamped before the arc cosine and that two
  identical images with nonzero pixels have an angular distance of about 0. The call
  looks up \<^verbatim>\<open>torch.spiit\<close>, which does not exist: on two identical images of
  shape (1, 3, 1, 1) with every element 1 it raises \<^verbatim>\<open>AttributeError\<close> and
  returns no distance.
\<close>

theorem ColorLoss1_forward_identical_raises:
  "is_batch [[[[1]], [[1]], [[1]]]] 1 3 1 1
   \<and> ColorLoss1_forward [[[[1]], [[1]], [[1]]]] [[[[1]], [[1]], [[1]]]] = Inl AttributeError"
  using ones_1311 ColorLoss1_forward_raises[of "[[[[1]], [[1]], [[1]]]]" "[[[[1]], [[1]], [[1]]]]"]
  by (simp add: size1_def)

section \<open>Sums over the elements of a batch\<close>

lemma sum_list_concat_map: "sum_list (concat xss) = (\<Sum>xs\<leftarrow>xss. sum_list (xs :: real list))"
  by (induction xss) auto

lemma sum_all_nested:
  "sum_all t = (\<Sum>i\<leftarrow>t. \<Sum>p\<leftarrow>i. \<Sum>r\<leftarrow>p. sum_list r)"
  by (simp add: sum_all_def flat_def sum_list_concat_map map_concat comp_def)

lemma sum_list_nth: "sum_list (map f xs) = (\<Sum>k\<leftarrow>[0..<length xs]. f (xs ! k))"
proof -
  have "map f xs = map (\<lambda>k. f (xs ! k)) [0..<length xs]"
    by (rule nth_equalityI) auto
  then show ?thesis by simp
qed

lemma sum_list_zip_nth:
  assumes "length xs = n" "length ys = n"
  shows "(\<Sum>(a, b)\<leftarrow>zip xs ys. G a b) = (\<Sum>k\<leftarrow>[0..<n]. G (xs ! k) (ys ! k))"
proof -
  have "map (\<lambda>(a, b). G a b) (zip xs ys) = map (\<lambda>k. G (xs ! k) (ys ! k)) [0..<n]"
    using assms by (intro nth_equalityI) auto
  then show ?thesis by simp
qed

lemma sum_list_cong_nth:
  "(\<And>k. k < n \<Longrightarrow> f k = g k) \<Longrightarrow> (\<Sum>k\<leftarrow>[0..<n]. f k) = (\<Sum>k\<leftarrow>[0..<n]. (g k :: real))"
  by (rule arg_cong[where f = sum_list]) (rule map_cong, auto)

lemma sum_all_zip4:
  "sum_all (map4 g (zip4 f A B)) =
     (\<Sum>(ia, ib)\<leftarrow>zip A B. \<Sum>(pa, pb)\<leftarrow>zip ia ib. \<Sum>(ra, rb)\<leftarrow>zip pa pb. \<Sum>(u, v)\<leftarrow>zip ra rb. g (f u v))"
  by (simp add: sum_all_nested map4_def zip4_def comp_def split_def)


lemma has_shape_sizes:
  assumes "has_shape x b c h w"
  shows "size0 x = b"
    and "size1 x = (if b = 0 then 0 else c)"
    and "size2 x = (if b = 0 \<or> c = 0 then 0 else h)"
    and "size3 x = (if b = 0 \<or> c = 0 \<or> h = 0 then 0 else w)"
  using assms
  by (auto simp: has_shape_def size0_def size1_def size2_def size3_def split: list.splits)

lemma has_shape_own_sizes:
  assumes "has_shape x b c h w"
  shows "has_shape x (size0 x) (size1 x) (size2 x) (size3 x)"
  using assms has_shape_sizes[OF assms]
  unfolding has_shape_def list_all_iff by (cases "h = 0") force+

lemma bop_has_shape:
  assumes "has_shape x b c h w" and "has_shape y b c h w"
  shows "bop f x y = Inr (zip4 f x y)"
proof -
  have eq: "size0 y = size0 x" "size1 y = size1 x" "size2 y = size2 x" "size3 y = size3 x"
    using has_shape_sizes[OF assms(1)] has_shape_sizes[OF assms(2)] by simp_all
  have "expand4 (size0 x) (size1 x) (size2 x) (size3 x) x = x"
    using has_shape_own_sizes[OF assms(1)] by (rule has_shape_expand4_id)
  moreover have "expand4 (size0 x) (size1 x) (size2 x) (size3 x) y = y"
    using has_shape_own_sizes[OF assms(2)] eq by (intro has_shape_expand4_id) simp
  ultimately show ?thesis
    by (simp add: bop_def broadcastable_def compat_dim_def bdim_same eq Let_def)
qed

section \<open>TVLoss\<close>

lemma slice_to_take: "length p = n \<Longrightarrow> slice_to (int n - 1) p = take (n - 1) p"
  by (cases n) (auto simp: slice_to_def)

lemma has_shape_rows_from1:
  "has_shape x b c h w \<Longrightarrow> has_shape (rows_from1 x) b c (h - 1) w"
  by (auto simp: has_shape_def rows_from1_def list_all_iff dest: in_set_dropD)

lemma has_shape_rows_to:
  "has_shape x b c h w \<Longrightarrow> has_shape (rows_to (int h - 1) x) b c (h - 1) w"
  by (auto simp: has_shape_def rows_to_def list_all_iff slice_to_take dest: in_set_takeD)

lemma has_shape_cols_from1:
  "has_shape x b c h w \<Longrightarrow> has_shape (cols_from1 x) b c h (w - 1)"
  by (auto simp: has_shape_def cols_from1_def list_all_iff)

lemma has_shape_cols_to:
  "has_shape x b c h w \<Longrightarrow> has_shape (cols_to (int w - 1) x) b c h (w - 1)"
  by (auto simp: has_shape_def cols_to_def list_all_iff slice_to_take)

lemma sum_rows:
  assumes "length ra = w" "length rb = w"
  shows "(\<Sum>(u, v)\<leftarrow>zip ra rb. (u - v) ^ 2) = (\<Sum>j\<leftarrow>[0..<w]. (ra ! j - rb ! j :: real) ^ 2)"
  using assms by (rule sum_list_zip_nth)

lemma plane_h_tv:
  assumes "length p = h" and "\<forall>r\<in>set p. length r = w"
  shows "(\<Sum>(ra, rb)\<leftarrow>zip (drop 1 p) (slice_to (int h - 1) p). \<Sum>(u, v)\<leftarrow>zip ra rb. (u - v) ^ 2)
       = (\<Sum>i\<leftarrow>[0..<h - 1]. \<Sum>j\<leftarrow>[0..<w]. (p ! (i + 1) ! j - p ! i ! j :: real) ^ 2)"
proof -
  have "(\<Sum>(ra, rb)\<leftarrow>zip (drop 1 p) (take (h - 1) p). \<Sum>(u, v)\<leftarrow>zip ra rb. (u - v) ^ 2)
      = (\<Sum>i\<leftarrow>[0..<h - 1]. \<Sum>(u, v)\<leftarrow>zip (drop 1 p ! i) (take (h - 1) p ! i). (u - v) ^ 2)"
    using assms(1) by (intro sum_list_zip_nth) auto
  also have "\<dots> = (\<Sum>i\<leftarrow>[0..<h - 1]. \<Sum>j\<leftarrow>[0..<w]. (p ! (i + 1) ! j - p ! i ! j) ^ 2)"
  proof (rule sum_list_cong_nth)
    fix i assume i: "i < h - 1"
    have "drop 1 p ! i = p ! (i + 1)" "take (h - 1) p ! i = p ! i"
      using i assms(1) by auto
    moreover have "length (p ! (i + 1)) = w" "length (p ! i) = w"
      using i assms by auto
    ultimately show "(\<Sum>(u, v)\<leftarrow>zip (drop 1 p ! i) (take (h - 1) p ! i). (u - v) ^ 2)
        = (\<Sum>j\<leftarrow>[0..<w]. (p ! (i + 1) ! j - p ! i ! j) ^ 2)"
      by (simp add: sum_rows)
  qed
  finally show ?thesis using assms(1) by (simp add: slice_to_take)
qed

lemma plane_w_tv:
  assumes "length p = h" and "\<forall>r\<in>set p. length r = w"
  shows "(\<Sum>(ra, rb)\<leftarrow>zip (map (drop 1) p) (map (slice_to (int w - 1)) p).
            \<Sum>(u, v)\<leftarrow>zip ra rb. (u - v) ^ 2)
       = (\<Sum>i\<leftarrow>[0..<h]. \<Sum>j\<leftarrow>[0..<w - 1]. (p ! i ! (j + 1) - p ! i ! j :: real) ^ 2)"
proof -
  have "(\<Sum>(ra, rb)\<leftarrow>zip (map (drop 1) p) (map (slice_to (int w - 1)) p).
            \<Sum>(u, v)\<leftarrow>zip ra rb. (u - v) ^ 2)
      = (\<Sum>i\<leftarrow>[0..<h]. \<Sum>(u, v)\<leftarrow>zip (map (drop 1) p ! i) (map (slice_to (int w - 1)) p ! i).
            (u - v) ^ 2)"
    using assms(1) by (intro sum_list_zip_nth) auto
  also have "\<dots> = (\<Sum>i\<leftarrow>[0..<h]. \<Sum>j\<leftarrow>[0..<w - 1]. (p ! i ! (j + 1) - p ! i ! j) ^ 2)"
  proof (rule sum_list_cong_nth)
    fix i assume i: "i < h"
    have len: "length (p ! i) = w" using i assms by auto
    have "(\<Sum>(u, v)\<leftarrow>zip (drop 1 (p ! i)) (take (w - 1) (p ! i)). (u - v) ^ 2)
        = (\<Sum>j\<leftarrow>[0..<w - 1]. (drop 1 (p ! i) ! j - take (w - 1) (p ! i) ! j) ^ 2)"
      using len by (intro sum_rows) auto
    also have "\<dots> = (\<Sum>j\<leftarrow>[0..<w - 1]. (p ! i ! (j + 1) - p ! i ! j) ^ 2)"
      using len by (intro sum_list_cong_nth) auto
    finally show "(\<Sum>(u, v)\<leftarrow>zip (map (drop 1) p ! i) (map (slice_to (int w - 1)) p ! i).
            (u - v) ^ 2) = (\<Sum>j\<leftarrow>[0..<w - 1]. (p ! i ! (j + 1) - p ! i ! j) ^ 2)"
      using i assms(1) len by (simp add: slice_to_take)
  qed
  finally show ?thesis .
qed

lemma sum_planes:
  assumes "has_shape x b c h w"
  shows "(\<Sum>i\<leftarrow>x. \<Sum>p\<leftarrow>i. P p) = (\<Sum>n\<leftarrow>[0..<b]. \<Sum>k\<leftarrow>[0..<c]. (P (x ! n ! k) :: real))"
proof -
  have "(\<Sum>i\<leftarrow>x. \<Sum>p\<leftarrow>i. P p) = (\<Sum>n\<leftarrow>[0..<length x]. \<Sum>p\<leftarrow>x ! n. P p)"
    by (rule sum_list_nth)
  also have "\<dots> = (\<Sum>n\<leftarrow>[0..<b]. \<Sum>p\<leftarrow>x ! n. P p)"
    using assms by (simp add: has_shape_def)
  also have "\<dots> = (\<Sum>n\<leftarrow>[0..<b]. \<Sum>k\<leftarrow>[0..<c]. P (x ! n ! k))"
  proof (rule sum_list_cong_nth)
    fix n assume "n < b"
    then have "length (x ! n) = c"
      using assms by (auto simp: has_shape_def list_all_iff)
    then show "(\<Sum>p\<leftarrow>x ! n. P p) = (\<Sum>k\<leftarrow>[0..<c]. P (x ! n ! k))"
      using sum_list_nth[of P "x ! n"] by simp
  qed
  finally show ?thesis .
qed

lemma has_shape_plane:
  assumes "has_shape x b c h w" "n < b" "k < c"
  shows "length (x ! n ! k) = h \<and> (\<forall>r\<in>set (x ! n ! k). length r = w)"
proof -
  have "x ! n \<in> set x" using assms by (simp add: has_shape_def)
  then have i: "length (x ! n) = c \<and> (\<forall>p\<in>set (x ! n). length p = h \<and> (\<forall>r\<in>set p. length r = w))"
    using assms(1) by (auto simp: has_shape_def list_all_iff)
  then have "x ! n ! k \<in> set (x ! n)" using assms(3) by simp
  then show ?thesis using i by blast
qed

lemma h_tv_eq:
  assumes "is_batch x b c h w"
  shows "sum_all (map4 (\<lambda>d. d ^ 2) (zip4 (-) (rows_from1 x) (rows_to (int h - 1) x))) = h_tv_spec x"
proof -
  have hs: "has_shape x b c h w" using assms by (simp add: is_batch_def)
  have "sum_all (map4 (\<lambda>d. d ^ 2) (zip4 (-) (rows_from1 x) (rows_to (int h - 1) x)))
      = (\<Sum>i\<leftarrow>x. \<Sum>p\<leftarrow>i. \<Sum>(ra, rb)\<leftarrow>zip (drop 1 p) (slice_to (int h - 1) p).
           \<Sum>(u, v)\<leftarrow>zip ra rb. (u - v) ^ 2)"
    by (simp add: sum_all_zip4 rows_from1_def rows_to_def zip_map_map zip_same_conv_map
        comp_def split_def)
  also have "\<dots> = (\<Sum>n\<leftarrow>[0..<b]. \<Sum>k\<leftarrow>[0..<c]. \<Sum>(ra, rb)\<leftarrow>zip (drop 1 (x ! n ! k))
           (slice_to (int h - 1) (x ! n ! k)). \<Sum>(u, v)\<leftarrow>zip ra rb. (u - v) ^ 2)"
    using hs by (rule sum_planes)
  also have "\<dots> = (\<Sum>n\<leftarrow>[0..<b]. \<Sum>k\<leftarrow>[0..<c]. \<Sum>i\<leftarrow>[0..<h - 1]. \<Sum>j\<leftarrow>[0..<w].
           (x ! n ! k ! (i + 1) ! j - x ! n ! k ! i ! j) ^ 2)"
    by (intro sum_list_cong_nth plane_h_tv) (use has_shape_plane[OF hs] in auto)
  finally show ?thesis
    using is_batch_sizes[OF assms] by (simp add: h_tv_spec_def)
qed

lemma w_tv_eq:
  assumes "is_batch x b c h w"
  shows "sum_all (map4 (\<lambda>d. d ^ 2) (zip4 (-) (cols_from1 x) (cols_to (int w - 1) x))) = w_tv_spec x"
proof -
  have hs: "has_shape x b c h w" using assms by (simp add: is_batch_def)
  have "sum_all (map4 (\<lambda>d. d ^ 2) (zip4 (-) (cols_from1 x) (cols_to (int w - 1) x)))
      = (\<Sum>i\<leftarrow>x. \<Sum>p\<leftarrow>i. \<Sum>(ra, rb)\<leftarrow>zip (map (drop 1) p) (map (slice_to (int w - 1)) p).
           \<Sum>(u, v)\<leftarrow>zip ra rb. (u - v) ^ 2)"
    by (simp add: sum_all_zip4 cols_from1_def cols_to_def zip_map_map zip_same_conv_map
        comp_def split_def)
  also have "\<dots> = (\<Sum>n\<leftarrow>[0..<b]. \<Sum>k\<leftarrow>[0..<c]. \<Sum>(ra, rb)\<leftarrow>zip (map (drop 1) (x ! n ! k))
           (map (slice_to (int w - 1)) (x ! n ! k)). \<Sum>(u, v)\<leftarrow>zip ra rb. (u - v) ^ 2)"
    using hs by (rule sum_planes)
  also have "\<dots> = (\<Sum>n\<leftarrow>[0..<b]. \<Sum>k\<leftarrow>[0..<c]. \<Sum>i\<leftarrow>[0..<h]. \<Sum>j\<leftarrow>[0..<w - 1].
           (x ! n ! k ! i ! (j + 1) - x ! n ! k ! i ! j) ^ 2)"
    by (intro sum_list_cong_nth plane_w_tv) (use has_shape_plane[OF hs] in auto)
  finally show ?thesis
    using is_batch_sizes[OF assms] by (simp add: w_tv_spec_def)
qed

lemma count_h_eq:
  assumes "is_batch x b c h w"
  shows "tensor_size (rows_from1 x) = c * (h - 1) * w"
  using has_shape_sizes[OF has_shape_rows_from1[of x b c h w]] assms
  by (auto simp: tensor_size_def is_batch_def)

lemma count_w_eq:
  assumes "is_batch x b c h w"
  shows "tensor_size (cols_from1 x) = c * h * (w - 1)"
  using has_shape_sizes[OF has_shape_cols_from1[of x b c h w]] assms
  by (auto simp: tensor_size_def is_batch_def)

lemma TVLoss_forward_eq:
  assumes "is_batch x b c h w"
  shows "TVLoss_forward wt x =
     Inr (sdiv (smul (wt * 2) (sadd (fdiv (h_tv_spec x) (c * (h - 1) * w))
                                    (fdiv (w_tv_spec x) (c * h * (w - 1))))) b)"
proof -
  have hs: "has_shape x b c h w" using assms by (simp add: is_batch_def)
  have dh: "bop (-) (rows_from1 x) (rows_to (int h - 1) x)
      = Inr (zip4 (-) (rows_from1 x) (rows_to (int h - 1) x))"
    using has_shape_rows_from1[OF hs] has_shape_rows_to[OF hs] by (rule bop_has_shape)
  have dw: "bop (-) (cols_from1 x) (cols_to (int w - 1) x)
      = Inr (zip4 (-) (cols_from1 x) (cols_to (int w - 1) x))"
    using has_shape_cols_from1[OF hs] has_shape_cols_to[OF hs] by (rule bop_has_shape)
  show ?thesis
    using is_batch_sizes[OF assms]
    by (simp add: TVLoss_forward_def Let_def and_then_def dh dw h_tv_eq[OF assms] w_tv_eq[OF assms]
        count_h_eq[OF assms] count_w_eq[OF assms])
qed

lemma tv_example: "is_batch [[[[0, 1], [0, 0]]]] 1 1 2 2"
  by (simp add: is_batch_def has_shape_def)

lemma upt_2: "[0..<2] = [0, 1]"
  by (simp add: upt_rec)

lemma tv_example_sums:
  "h_tv_spec [[[[0, 1], [0, 0]]]] = 1" "w_tv_spec [[[[0, 1], [0, 0]]]] = 1"
  by (simp_all add: h_tv_spec_def w_tv_spec_def size0_def size1_def size2_def size3_def upt_2)

lemma tv_example_counts:
  "tensor_size (rows_from1 [[[[0, 1], [0, 0]]]]) = 2"
  "tensor_size (cols_from1 [[[[0, 1], [0, 0]]]]) = 2"
  "size0 [[[[0, 1], [0, 0 :: real]]]] = 1"
  by (simp_all add: tensor_size_def rows_from1_def cols_from1_def size0_def size1_def size2_def
      size3_def)

text \<open>
  C9, as stated: TVLoss.forward returns
  \<open>tv_loss_weight * (h_tv / count_h + w_tv / count_w) / batch_size\<close>. On the batch of
  shape (1, 1, 2, 2) with the rows \<open>[0, 1]\<close> and \<open>[0, 0]\<close> and the weight 1 that
  expression is 1, and the call returns 2.
\<close>

theorem TVLoss_forward_factor_counterexample:
  "TVLoss_forward 1 [[[[0, 1], [0, 0]]]] = Inr (Some 2)
   \<and> 1 * (h_tv_spec [[[[0, 1], [0, 0]]]] / real (tensor_size (rows_from1 [[[[0, 1], [0, 0]]]]))
          + w_tv_spec [[[[0, 1], [0, 0]]]] / real (tensor_size (cols_from1 [[[[0, 1], [0, 0]]]])))
       / real (size0 [[[[0, 1], [0, 0 :: real]]]]) = (1 :: real)"
  using TVLoss_forward_eq[OF tv_example, of 1]
  by (simp add: tv_example_sums tv_example_counts fdiv_def sadd_def smul_def sdiv_def)

text \<open>
  C9, amended: for a batch of shape (b, c, h, w) with \<open>h > 1\<close> and \<open>w > 1\<close>,
  TVLoss.forward returns
  \<open>tv_loss_weight * 2 * (h_tv / count_h + w_tv / count_w) / batch_size\<close>, where
  \<open>h_tv\<close> and \<open>w_tv\<close> are the sums of the squared differences of vertically and of
  horizontally adjacent pixels, \<open>count_h = c * (h - 1) * w\<close> and
  \<open>count_w = c * h * (w - 1)\<close>.
\<close>

theorem TVLoss_forward_formula:
  assumes "is_batch x b c h w" and "1 < h" and "1 < w"
  shows "TVLoss_forward tv_loss_weight x =
     Inr (Some (tv_loss_weight * 2 *
                  (h_tv_spec x / real (c * (h - 1) * w) + w_tv_spec x / real (c * h * (w - 1)))
                / real b))"
  using assms TVLoss_forward_eq[OF assms(1), of tv_loss_weight]
  by (simp add: fdiv_def sadd_def smul_def sdiv_def is_batch_def)

theorem TVLoss_forward_formula_witness:
  "is_batch [[[[0, 1], [0, 0]]]] 1 1 2 2 \<and> (1 :: nat) < 2
   \<and> TVLoss_forward 3 [[[[0, 1], [0, 0]]]] =
     Inr (Some (3 * 2 *
                  (h_tv_spec [[[[0, 1], [0, 0]]]] / real (1 * (2 - 1) * 2)
                   + w_tv_spec [[[[0, 1], [0, 0]]]] / real (1 * 2 * (2 - 1)))
                / real 1))"
proof -
  have l: "(1 :: nat) < 2" by simp
  show ?thesis
    using TVLoss_forward_formula[OF tv_example l l, of 3] tv_example l by simp
qed

section \<open>UnionLoss\<close>






















section \<open>ColorLoss\<close>






























section \<open>UnionLoss: the returned value\<close>










end
